theory Spec2Isabelle
  imports Complex_Main "HOL-Library.Sublist"
begin

section \<open>Values, documents and errors\<close>

text \<open>
  The handlers of \<^verbatim>\<open>src/main.py\<close> move JSON-like documents between the request and a
  document store. A document is a Python dict: an association list with distinct keys that
  keeps insertion order. Python floats are carried around, never computed with, and are
  modelled as reals; timestamps as integers.
\<close>

datatype json =
    JNull
  | JBool bool
  | JInt int
  | JFloat real
  | JStr string
  | JOid nat
  | JDate int
  | JList "json list"
  | JObj "(string \<times> json) list"

type_synonym doc = "(string \<times> json) list"

text \<open>
  Exceptions that reach a handler, and what the framework makes of the handler's outcome:
  an \<^verbatim>\<open>HTTPException\<close> carries its status code, any other exception leaves the handler
  uncaught (the framework answers 500), and a body that fails its schema never reaches the
  handler (the framework answers 422).
\<close>

datatype exc =
    InvalidId string
  | Unavailable
  | NotImplementedError
  | Unmodelled_regex string

datatype error =
    HTTPException nat string
  | Uncaught exc
  | RequestValidationError string

fun status_code :: "error \<Rightarrow> nat" where
  "status_code (HTTPException c d) = c"
| "status_code (Uncaught e) = 500"
| "status_code (RequestValidationError d) = 422"

text \<open>
  \<^verbatim>\<open>str(e)\<close>. The message of \<^verbatim>\<open>InvalidId\<close> quotes the identifier as \<^verbatim>\<open>repr\<close> does for a
  string with no quote or escape in it.
\<close>

fun str_exc :: "exc \<Rightarrow> string" where
  "str_exc (InvalidId s) =
     [CHR 0x27] @ s @ [CHR 0x27] @
     '' is not a valid ObjectId, it must be a 12-byte input or a 24-character hex string''"
| "str_exc Unavailable = ''Database not available''"
| "str_exc NotImplementedError =
     ''Database objects do not implement truth value testing or bool(). Please compare with None instead: database is not None''"
| "str_exc (Unmodelled_regex q) = q"

section \<open>Identifiers\<close>

text \<open>
  \<^verbatim>\<open>bson.ObjectId\<close> is a 12-byte value. Built from a string it takes exactly 24
  hexadecimal digits (either case) and raises \<^verbatim>\<open>InvalidId\<close> otherwise; \<^verbatim>\<open>str\<close> prints
  the 24 digits in lower case. The value is modelled as the natural number the digits
  denote. The library reads the digits with \<^verbatim>\<open>bytes.fromhex\<close>, which skips ASCII white
  space between pairs of digits: a string of 24 characters with white space in it can give
  a value of fewer than 12 bytes. Such strings are not covered: \<open>ObjectId\<close> answers
  \<^verbatim>\<open>InvalidId\<close> for them, as it does for every string the library refuses.
\<close>

definition hex_val :: "char \<Rightarrow> nat option" where
  "hex_val c =
     (let n = of_char c :: nat in
      if 48 \<le> n \<and> n \<le> 57 then Some (n - 48)
      else if 97 \<le> n \<and> n \<le> 102 then Some (n - 87)
      else if 65 \<le> n \<and> n \<le> 70 then Some (n - 55)
      else None)"

definition is_hex :: "char \<Rightarrow> bool" where
  "is_hex c = (hex_val c \<noteq> None)"

fun hex_num :: "nat \<Rightarrow> string \<Rightarrow> nat" where
  "hex_num acc [] = acc"
| "hex_num acc (c # cs) = hex_num (16 * acc + (case hex_val c of Some v \<Rightarrow> v | None \<Rightarrow> 0)) cs"

definition ObjectId :: "string \<Rightarrow> exc + nat" where
  "ObjectId s =
     (if length s = 24 \<and> list_all is_hex s then Inr (hex_num 0 s) else Inl (InvalidId s))"

definition hex_char :: "nat \<Rightarrow> char" where
  "hex_char v = (if v < 10 then char_of (48 + v) else char_of (87 + v))"

fun hex_digits :: "nat \<Rightarrow> nat \<Rightarrow> string" where
  "hex_digits 0 v = []"
| "hex_digits (Suc n) v = hex_digits n (v div 16) @ [hex_char (v mod 16)]"

definition str_oid :: "nat \<Rightarrow> string" where
  "str_oid v = hex_digits 24 v"

section \<open>The document store\<close>

text \<open>
  Modelled from the spec: the module \<^verbatim>\<open>database\<close> (the handle \<^verbatim>\<open>db\<close>, and the helpers
  \<^verbatim>\<open>create_document\<close> and \<^verbatim>\<open>get_documents\<close>) is not among the sources. The spec
  describes it as a document store adapter with \<^verbatim>\<open>insert(collection, document) -> identifier\<close>,
  \<^verbatim>\<open>find(collection, filter, limit) -> sequence of documents\<close> and
  \<^verbatim>\<open>update_one -> modified_count\<close>, addressed by collection name, every record carrying a
  store-assigned identifier, listed in insertion order; an unavailable store is the error
  kind \<^verbatim>\<open>Unavailable\<close>. The handle \<^verbatim>\<open>db\<close> is \<^verbatim>\<open>None\<close> or a store. Failures of a reachable
  store (timeouts, crashes) are outside the model.
\<close>

record store =
  colls :: "string \<Rightarrow> doc list"
  next_oid :: nat

text \<open>
  Filters, as the handlers build them: a dict of field conditions (all must hold; the empty
  dict matches everything), or \<^verbatim>\<open>$or\<close> over a list of filters. A condition is equality
  with a value or \<^verbatim>\<open>{"$regex": q, "$options": "i"}\<close>.
\<close>

datatype cond = Eq json | RegexI string

datatype flt = Fields "(string \<times> cond) list" | Or "flt list"

subsection \<open>Regular expressions\<close>

text \<open>
  The store reads the query of \<^verbatim>\<open>$regex\<close> as a regular expression and searches the field
  for it (unanchored), ignoring the case of ASCII letters under option \<^verbatim>\<open>i\<close>. The model
  covers the patterns built from literal characters, \<^verbatim>\<open>.\<close> (any character but newline)
  and \<^verbatim>\<open>^\<close> (the start of the text). A pattern that uses any other metacharacter is
  outside the model: \<open>parse_regex\<close> gives \<open>None\<close> and nothing is stated about it.
\<close>

datatype pat = PChar char | PAny | PBol

definition regex_meta :: "char list" where
  "regex_meta = ''.^$*+?()[]{}|'' @ [CHR 0x5C]"

definition is_literal :: "char \<Rightarrow> bool" where
  "is_literal c = (c \<notin> set regex_meta)"

fun parse_regex :: "string \<Rightarrow> pat list option" where
  "parse_regex [] = Some []"
| "parse_regex (c # cs) =
     (case parse_regex cs of
        None \<Rightarrow> None
      | Some ps \<Rightarrow>
          if c = CHR ''.'' then Some (PAny # ps)
          else if c = CHR ''^'' then Some (PBol # ps)
          else if is_literal c then Some (PChar c # ps)
          else None)"

definition lower :: "char \<Rightarrow> char" where
  "lower c =
     (let n = of_char c :: nat in if 65 \<le> n \<and> n \<le> 90 then char_of (n + 32) else c)"

fun match_here :: "pat list \<Rightarrow> bool \<Rightarrow> string \<Rightarrow> bool" where
  "match_here [] b s = True"
| "match_here (PBol # ps) b s = (b \<and> match_here ps b s)"
| "match_here (PChar c # ps) b [] = False"
| "match_here (PChar c # ps) b (x # xs) = (lower x = lower c \<and> match_here ps False xs)"
| "match_here (PAny # ps) b [] = False"
| "match_here (PAny # ps) b (x # xs) = (x \<noteq> CHR 0x0A \<and> match_here ps False xs)"

fun search :: "pat list \<Rightarrow> bool \<Rightarrow> string \<Rightarrow> bool" where
  "search ps b [] = match_here ps b []"
| "search ps b (x # xs) = (match_here ps b (x # xs) \<or> search ps False xs)"

definition regex_search_i :: "string \<Rightarrow> string \<Rightarrow> bool" where
  "regex_search_i q s = (case parse_regex q of None \<Rightarrow> False | Some ps \<Rightarrow> search ps True s)"

subsection \<open>Matching and the store operations\<close>

fun cmatch :: "cond \<Rightarrow> json option \<Rightarrow> bool" where
  "cmatch (Eq v) x = (x = Some v)"
| "cmatch (RegexI q) (Some (JStr s)) = regex_search_i q s"
| "cmatch (RegexI q) x = False"

fun fmatch :: "flt \<Rightarrow> doc \<Rightarrow> bool" where
  "fmatch (Fields cs) d = list_all (\<lambda>(k, c). cmatch c (map_of d k)) cs"
| "fmatch (Or fs) d = list_ex (\<lambda>f. fmatch f d) fs"

fun cond_ok :: "cond \<Rightarrow> exc option" where
  "cond_ok (Eq v) = None"
| "cond_ok (RegexI q) = (if parse_regex q = None then Some (Unmodelled_regex q) else None)"

fun first_some :: "'a option list \<Rightarrow> 'a option" where
  "first_some [] = None"
| "first_some (None # xs) = first_some xs"
| "first_some (Some e # xs) = Some e"

fun flt_ok :: "flt \<Rightarrow> exc option" where
  "flt_ok (Fields cs) = first_some (map (\<lambda>(k, c). cond_ok c) cs)"
| "flt_ok (Or fs) = first_some (map flt_ok fs)"

text \<open>\<^verbatim>\<open>$set\<close>: each key of the update overwrites the field in place, or is appended.\<close>

fun assign :: "string \<Rightarrow> json \<Rightarrow> doc \<Rightarrow> doc" where
  "assign k v [] = [(k, v)]"
| "assign k v ((k', v') # d) =
     (if k' = k then (k, v) # d else (k', v') # assign k v d)"

fun apply_set :: "doc \<Rightarrow> doc \<Rightarrow> doc" where
  "apply_set [] d = d"
| "apply_set ((k, v) # us) d = apply_set us (assign k v d)"

text \<open>
  \<^verbatim>\<open>update_one\<close> changes the first document that matches, and counts it as modified when
  the update changed it.
\<close>

fun update_first :: "(doc \<Rightarrow> bool) \<Rightarrow> doc \<Rightarrow> doc list \<Rightarrow> nat \<times> doc list" where
  "update_first P us [] = (0, [])"
| "update_first P us (d # ds) =
     (if P d then ((if apply_set us d = d then 0 else 1), apply_set us d # ds)
      else (case update_first P us ds of (n, ds') \<Rightarrow> (n, d # ds')))"

definition update_one :: "string \<Rightarrow> flt \<Rightarrow> doc \<Rightarrow> store \<Rightarrow> nat \<times> store" where
  "update_one coll f us s =
     (case update_first (fmatch f) us (colls s coll) of
        (n, ds') \<Rightarrow> (n, s\<lparr>colls := (colls s)(coll := ds')\<rparr>))"

text \<open>
  \<^verbatim>\<open>create_document\<close> inserts the dumped model under a fresh identifier and returns the
  identifier as a string.
\<close>

definition create_document :: "store option \<Rightarrow> string \<Rightarrow> doc \<Rightarrow> (exc + string) \<times> store option" where
  "create_document db coll data =
     (case db of
        None \<Rightarrow> (Inl Unavailable, db)
      | Some s \<Rightarrow>
          (Inr (str_oid (next_oid s)),
           Some (s\<lparr>colls := (colls s)(coll := colls s coll @ [data @ [(''_id'', JOid (next_oid s))]]),
                   next_oid := Suc (next_oid s)\<rparr>)))"

text \<open>
  The truth value of the handle, \<^verbatim>\<open>bool(db)\<close>. The handlers index the handle by collection
  name and call \<^verbatim>\<open>update_one\<close>, \<^verbatim>\<open>delete_one\<close> and \<^verbatim>\<open>list_collection_names\<close> on it:
  it is a pymongo database, which does not implement truth testing and raises
  \<^verbatim>\<open>NotImplementedError\<close>. \<^verbatim>\<open>None\<close> is false.
\<close>

definition truth_test :: "store option \<Rightarrow> exc + bool" where
  "truth_test db = (case db of None \<Rightarrow> Inr False | Some s \<Rightarrow> Inl NotImplementedError)"

text \<open>\<^verbatim>\<open>get_documents\<close> returns the documents that match, capped at \<open>limit\<close>.\<close>

definition get_documents :: "store option \<Rightarrow> string \<Rightarrow> flt \<Rightarrow> int \<Rightarrow> exc + doc list" where
  "get_documents db coll f limit =
     (case db of
        None \<Rightarrow> Inl Unavailable
      | Some s \<Rightarrow>
          (case flt_ok f of
             Some e \<Rightarrow> Inl e
           | None \<Rightarrow> Inr (take (nat limit) (filter (fmatch f) (colls s coll)))))"

section \<open>Schemas\<close>

text \<open>
  A field of a request body is absent, \<^verbatim>\<open>null\<close>, or a value of the field's type. The
  update schema \<^verbatim>\<open>ProductUpdate\<close> keeps the three apart (\<^verbatim>\<open>exclude_unset\<close> reads it).
\<close>

datatype 'a field = Unset | Null | Val 'a

record ProductUpdate =
  pu_name :: "string field"
  pu_sku :: "string field"
  pu_brand :: "string field"
  pu_category :: "string field"
  pu_barcode :: "string field"
  pu_price :: "real field"
  pu_tax_class :: "string field"
  pu_esl_id :: "string field"
  pu_stock :: "int field"
  pu_active :: "bool field"

fun dump_field :: "string \<Rightarrow> ('a \<Rightarrow> json) \<Rightarrow> 'a field \<Rightarrow> doc" where
  "dump_field k conv Unset = []"
| "dump_field k conv Null = [(k, JNull)]"
| "dump_field k conv (Val v) = [(k, conv v)]"

text \<open>\<^verbatim>\<open>updates.model_dump(exclude_unset=True)\<close>: the fields the body set, in schema order.\<close>

definition model_dump_exclude_unset :: "ProductUpdate \<Rightarrow> doc" where
  "model_dump_exclude_unset u =
     dump_field ''name'' JStr (pu_name u) @
     dump_field ''sku'' JStr (pu_sku u) @
     dump_field ''brand'' JStr (pu_brand u) @
     dump_field ''category'' JStr (pu_category u) @
     dump_field ''barcode'' JStr (pu_barcode u) @
     dump_field ''price'' JFloat (pu_price u) @
     dump_field ''tax_class'' JStr (pu_tax_class u) @
     dump_field ''esl_id'' JStr (pu_esl_id u) @
     dump_field ''stock'' JInt (pu_stock u) @
     dump_field ''active'' JBool (pu_active u)"

section \<open>Handlers\<close>

text \<open>
  A handler takes the handle \<^verbatim>\<open>db\<close> and returns its outcome with the handle after it.
\<close>

definition update_product ::
  "store option \<Rightarrow> string \<Rightarrow> ProductUpdate \<Rightarrow> (error + doc) \<times> store option" where
  "update_product db product_id updates =
     (case db of
        None \<Rightarrow> (Inl (HTTPException 500 ''Database not available''), db)
      | Some s \<Rightarrow>
          (let updates_dict = filter (\<lambda>(k, v). v \<noteq> JNull) (model_dump_exclude_unset updates) in
           if updates_dict = [] then (Inr [(''updated'', JInt 0)], db)
           else
             (case ObjectId product_id of
                Inl e \<Rightarrow> (Inl (HTTPException 400 (str_exc e)), db)
              | Inr oid \<Rightarrow>
                  (case update_one ''tobaccoproduct'' (Fields [(''_id'', Eq (JOid oid))]) updates_dict s of
                     (n, s') \<Rightarrow> (Inr [(''updated'', JInt (int n))], Some s')))))"

text \<open>The bodies the empty-field-set test of \<open>update_product\<close> lets through.\<close>

fun is_val :: "'a field \<Rightarrow> bool" where
  "is_val (Val v) = True"
| "is_val f = False"

definition has_value :: "ProductUpdate \<Rightarrow> bool" where
  "has_value u =
     (is_val (pu_name u) \<or> is_val (pu_sku u) \<or> is_val (pu_brand u) \<or> is_val (pu_category u) \<or>
      is_val (pu_barcode u) \<or> is_val (pu_price u) \<or> is_val (pu_tax_class u) \<or>
      is_val (pu_esl_id u) \<or> is_val (pu_stock u) \<or> is_val (pu_active u))"

text \<open>
  The value a body gives for a key, when the key is one of the schema's and the body has
  it present and non-null.
\<close>

fun given :: "('a \<Rightarrow> json) \<Rightarrow> 'a field \<Rightarrow> json option" where
  "given conv (Val v) = Some (conv v)"
| "given conv f = None"

definition present :: "ProductUpdate \<Rightarrow> string \<Rightarrow> json option" where
  "present u k =
     (if k = ''name'' then given JStr (pu_name u)
      else if k = ''sku'' then given JStr (pu_sku u)
      else if k = ''brand'' then given JStr (pu_brand u)
      else if k = ''category'' then given JStr (pu_category u)
      else if k = ''barcode'' then given JStr (pu_barcode u)
      else if k = ''price'' then given JFloat (pu_price u)
      else if k = ''tax_class'' then given JStr (pu_tax_class u)
      else if k = ''esl_id'' then given JStr (pu_esl_id u)
      else if k = ''stock'' then given JInt (pu_stock u)
      else if k = ''active'' then given JBool (pu_active u)
      else None)"

subsection \<open>Labels\<close>

text \<open>
  \<open>update_label\<close> takes the body as a plain dict and has no \<^verbatim>\<open>try\<close> around the
  identifier's parse: \<^verbatim>\<open>InvalidId\<close> leaves the handler uncaught.
\<close>

definition update_label ::
  "store option \<Rightarrow> string \<Rightarrow> doc \<Rightarrow> (error + doc) \<times> store option" where
  "update_label db label_id payload =
     (case db of
        None \<Rightarrow> (Inl (HTTPException 500 ''Database not available''), db)
      | Some s \<Rightarrow>
          (case ObjectId label_id of
             Inl e \<Rightarrow> (Inl (Uncaught e), db)
           | Inr oid \<Rightarrow>
               (case update_one ''label'' (Fields [(''_id'', Eq (JOid oid))]) payload s of
                  (n, s') \<Rightarrow> (Inr [(''updated'', JInt (int n))], Some s'))))"

text \<open>The creation schema \<^verbatim>\<open>Label\<close>: a body, and the model validation makes of it.\<close>

record label_body =
  lb_esl_id :: "string field"
  lb_status :: "string field"
  lb_battery :: "int field"
  lb_last_sync :: "int field"
  lb_product_sku :: "string field"

record Label =
  la_esl_id :: string
  la_status :: "string option"
  la_battery :: "int option"
  la_last_sync :: "int option"
  la_product_sku :: "string option"

text \<open>
  An optional field: its default when absent, \<^verbatim>\<open>None\<close> when null, the value otherwise.
\<close>

fun optional :: "'a option \<Rightarrow> 'a field \<Rightarrow> 'a option" where
  "optional dflt Unset = dflt"
| "optional dflt Null = None"
| "optional dflt (Val v) = Some v"

text \<open>
  Validation answers with the model, or with the name of the first field that fails
  (the library reports every failing field; the handlers never see the report).
\<close>

definition validate_Label :: "label_body \<Rightarrow> string + Label" where
  "validate_Label b =
     (case lb_esl_id b of
        Val esl \<Rightarrow>
          if (case lb_battery b of Val n \<Rightarrow> n < 0 \<or> 100 < n | _ \<Rightarrow> False) then Inl ''battery''
          else Inr \<lparr>la_esl_id = esl,
                    la_status = optional (Some ''idle'') (lb_status b),
                    la_battery = optional None (lb_battery b),
                    la_last_sync = optional None (lb_last_sync b),
                    la_product_sku = optional None (lb_product_sku b)\<rparr>
      | _ \<Rightarrow> Inl ''esl_id'')"

subsection \<open>Products\<close>

record product_body =
  pb_name :: "string field"
  pb_sku :: "string field"
  pb_brand :: "string field"
  pb_category :: "string field"
  pb_barcode :: "string field"
  pb_price :: "real field"
  pb_tax_class :: "string field"
  pb_esl_id :: "string field"
  pb_stock :: "int field"
  pb_active :: "bool field"

record TobaccoProduct =
  tp_name :: string
  tp_sku :: string
  tp_brand :: "string option"
  tp_category :: "string option"
  tp_barcode :: "string option"
  tp_price :: real
  tp_tax_class :: "string option"
  tp_esl_id :: "string option"
  tp_stock :: "int option"
  tp_active :: bool

definition validate_TobaccoProduct :: "product_body \<Rightarrow> string + TobaccoProduct" where
  "validate_TobaccoProduct b =
     (case pb_name b of
        Val name \<Rightarrow>
          (case pb_sku b of
             Val sku \<Rightarrow>
               (case pb_price b of
                  Val price \<Rightarrow>
                    if price < 0 then Inl ''price''
                    else if (case pb_stock b of Val n \<Rightarrow> n < 0 | _ \<Rightarrow> False) then Inl ''stock''
                    else if pb_active b = Null then Inl ''active''
                    else Inr \<lparr>tp_name = name, tp_sku = sku,
                              tp_brand = optional None (pb_brand b),
                              tp_category = optional (Some ''Tabacco'') (pb_category b),
                              tp_barcode = optional None (pb_barcode b),
                              tp_price = price,
                              tp_tax_class = optional (Some ''AAMS'') (pb_tax_class b),
                              tp_esl_id = optional None (pb_esl_id b),
                              tp_stock = optional (Some 0) (pb_stock b),
                              tp_active = (case pb_active b of Val a \<Rightarrow> a | _ \<Rightarrow> True)\<rparr>
                | _ \<Rightarrow> Inl ''price'')
           | _ \<Rightarrow> Inl ''sku'')
      | _ \<Rightarrow> Inl ''name'')"

fun opt_json :: "('a \<Rightarrow> json) \<Rightarrow> 'a option \<Rightarrow> json" where
  "opt_json conv None = JNull"
| "opt_json conv (Some v) = conv v"

text \<open>\<^verbatim>\<open>model_dump()\<close> of a product: every field of the schema, in schema order.\<close>

definition model_dump_TobaccoProduct :: "TobaccoProduct \<Rightarrow> doc" where
  "model_dump_TobaccoProduct p =
     [(''name'', JStr (tp_name p)),
      (''sku'', JStr (tp_sku p)),
      (''brand'', opt_json JStr (tp_brand p)),
      (''category'', opt_json JStr (tp_category p)),
      (''barcode'', opt_json JStr (tp_barcode p)),
      (''price'', JFloat (tp_price p)),
      (''tax_class'', opt_json JStr (tp_tax_class p)),
      (''esl_id'', opt_json JStr (tp_esl_id p)),
      (''stock'', opt_json JInt (tp_stock p)),
      (''active'', JBool (tp_active p))]"

definition create_product ::
  "store option \<Rightarrow> TobaccoProduct \<Rightarrow> (error + doc) \<times> store option" where
  "create_product db product =
     (case create_document db ''tobaccoproduct'' (model_dump_TobaccoProduct product) of
        (Inl e, db') \<Rightarrow> (Inl (Uncaught e), db')
      | (Inr product_id, db') \<Rightarrow> (Inr [(''id'', JStr product_id)], db'))"

text \<open>The route: the framework validates the body, then calls the handler.\<close>

definition post_product :: "store option \<Rightarrow> product_body \<Rightarrow> (error + doc) \<times> store option" where
  "post_product db body =
     (case validate_TobaccoProduct body of
        Inl d \<Rightarrow> (Inl (RequestValidationError d), db)
      | Inr product \<Rightarrow> create_product db product)"

text \<open>
  \<^verbatim>\<open>BulkProducts\<close>: the whole list of items is validated before the handler runs.
\<close>

record BulkProducts =
  items :: "TobaccoProduct list"

fun validate_items :: "product_body list \<Rightarrow> string + TobaccoProduct list" where
  "validate_items [] = Inr []"
| "validate_items (b # bs) =
     (case validate_TobaccoProduct b of
        Inl d \<Rightarrow> Inl d
      | Inr p \<Rightarrow> (case validate_items bs of Inl d \<Rightarrow> Inl d | Inr ps \<Rightarrow> Inr (p # ps)))"

definition validate_BulkProducts :: "product_body list \<Rightarrow> string + BulkProducts" where
  "validate_BulkProducts bs =
     (case validate_items bs of Inl d \<Rightarrow> Inl d | Inr ps \<Rightarrow> Inr \<lparr>items = ps\<rparr>)"

text \<open>The loop of \<open>create_products_bulk\<close>: an exception of an insert ends it.\<close>

fun bulk_loop ::
  "store option \<Rightarrow> TobaccoProduct list \<Rightarrow> string list \<Rightarrow> (exc + string list) \<times> store option" where
  "bulk_loop db [] inserted = (Inr inserted, db)"
| "bulk_loop db (item # rest) inserted =
     (case create_document db ''tobaccoproduct'' (model_dump_TobaccoProduct item) of
        (Inl e, db') \<Rightarrow> (Inl e, db')
      | (Inr i, db') \<Rightarrow> bulk_loop db' rest (inserted @ [i]))"

definition create_products_bulk ::
  "store option \<Rightarrow> BulkProducts \<Rightarrow> (error + doc) \<times> store option" where
  "create_products_bulk db payload =
     (case bulk_loop db (items payload) [] of
        (Inl e, db') \<Rightarrow> (Inl (Uncaught e), db')
      | (Inr inserted, db') \<Rightarrow>
          (Inr [(''inserted'', JList (map JStr inserted)),
                (''count'', JInt (int (length inserted)))], db'))"

definition post_products_bulk ::
  "store option \<Rightarrow> product_body list \<Rightarrow> (error + doc) \<times> store option" where
  "post_products_bulk db body =
     (case validate_BulkProducts body of
        Inl d \<Rightarrow> (Inl (RequestValidationError d), db)
      | Inr payload \<Rightarrow> create_products_bulk db payload)"

definition is_valid_product :: "product_body \<Rightarrow> bool" where
  "is_valid_product b = (case validate_TobaccoProduct b of Inl d \<Rightarrow> False | Inr p \<Rightarrow> True)"

text \<open>What \<open>n\<close> inserts in a row leave in a collection: the documents, numbered from \<open>n\<close>.\<close>

fun numbered :: "nat \<Rightarrow> doc list \<Rightarrow> doc list" where
  "numbered n [] = []"
| "numbered n (d # ds) = (d @ [(''_id'', JOid n)]) # numbered (Suc n) ds"

subsection \<open>Listing\<close>

text \<open>
  Python's truth value of a stored value, and \<^verbatim>\<open>str\<close> of an identifier. The store
  assigns ObjectIds; \<^verbatim>\<open>str\<close> of the other kinds of value is not modelled (it is the
  empty string here).
\<close>

fun truthy :: "json \<Rightarrow> bool" where
  "truthy JNull = False"
| "truthy (JBool b) = b"
| "truthy (JInt n) = (n \<noteq> 0)"
| "truthy (JFloat x) = (x \<noteq> 0)"
| "truthy (JStr s) = (s \<noteq> [])"
| "truthy (JOid n) = True"
| "truthy (JDate t) = True"
| "truthy (JList xs) = (xs \<noteq> [])"
| "truthy (JObj kvs) = (kvs \<noteq> [])"

fun py_str :: "json \<Rightarrow> string" where
  "py_str (JOid n) = str_oid n"
| "py_str (JStr s) = s"
| "py_str v = []"

definition pop :: "string \<Rightarrow> doc \<Rightarrow> doc" where
  "pop k d = filter (\<lambda>(k', v). k' \<noteq> k) d"

definition serialize :: "doc \<Rightarrow> doc" where
  "serialize d =
     (if d = [] then d
      else (case map_of d ''_id'' of
              Some v \<Rightarrow> if truthy v then assign ''id'' (JStr (py_str v)) (pop ''_id'' d) else d
            | None \<Rightarrow> d))"

definition product_query :: "string \<Rightarrow> flt" where
  "product_query q =
     Or [Fields [(''name'', RegexI q)],
         Fields [(''brand'', RegexI q)],
         Fields [(''sku'', RegexI q)]]"

definition list_products :: "store option \<Rightarrow> string option \<Rightarrow> int \<Rightarrow> error + doc list" where
  "list_products db q limit =
     (let filter_dict = (case q of
                           None \<Rightarrow> Fields []
                         | Some q' \<Rightarrow> if q' \<noteq> [] then product_query q' else Fields [])
      in case get_documents db ''tobaccoproduct'' filter_dict limit of
           Inl e \<Rightarrow> Inl (Uncaught e)
         | Inr docs \<Rightarrow> Inr (map serialize docs))"

text \<open>
  The spec's reading of the query: \<open>q\<close> occurs in the field, ignoring case.
\<close>

definition contains_ci :: "string \<Rightarrow> doc \<Rightarrow> string \<Rightarrow> bool" where
  "contains_ci q d k =
     (case map_of d k of
        Some (JStr v) \<Rightarrow> sublist (map lower q) (map lower v)
      | _ \<Rightarrow> False)"

definition text_match :: "string \<Rightarrow> doc \<Rightarrow> bool" where
  "text_match q d = (contains_ci q d ''name'' \<or> contains_ci q d ''brand'' \<or> contains_ci q d ''sku'')"

subsection \<open>Price updates\<close>

text \<open>
  The schema requires \<^verbatim>\<open>new_price\<close>, so a validated body has it; the handler tests it all
  the same, and the field is optional here to keep the test.
\<close>

record PriceUpdate =
  px_product_sku :: string
  px_old_price :: real
  px_new_price :: "real option"
  px_scheduled_at :: "int option"
  px_status :: string
  px_note :: "string option"

definition model_dump_PriceUpdate :: "PriceUpdate \<Rightarrow> doc" where
  "model_dump_PriceUpdate u =
     [(''product_sku'', JStr (px_product_sku u)),
      (''old_price'', JFloat (px_old_price u)),
      (''new_price'', opt_json JFloat (px_new_price u)),
      (''scheduled_at'', opt_json JDate (px_scheduled_at u)),
      (''status'', JStr (px_status u)),
      (''note'', opt_json JStr (px_note u))]"

text \<open>
  \<^verbatim>\<open>if db and update.new_price is not None\<close>: the conjunction takes the truth value of
  the handle first, and an exception of that test leaves the handler, the insert done.
\<close>

definition create_price_update ::
  "store option \<Rightarrow> PriceUpdate \<Rightarrow> (error + doc) \<times> store option" where
  "create_price_update db update =
     (case create_document db ''priceupdate'' (model_dump_PriceUpdate update) of
        (Inl e, db') \<Rightarrow> (Inl (Uncaught e), db')
      | (Inr upd_id, db') \<Rightarrow>
          (case truth_test db' of
             Inl e \<Rightarrow> (Inl (Uncaught e), db')
           | Inr t \<Rightarrow>
               (Inr [(''id'', JStr upd_id)],
                (case (db', px_new_price update) of
                   (Some s, Some new_price) \<Rightarrow>
                     if t
                     then Some (snd (update_one ''tobaccoproduct''
                                  (Fields [(''sku'', Eq (JStr (px_product_sku update)))])
                                  [(''price'', JFloat new_price)] s))
                     else db'
                 | _ \<Rightarrow> db'))))"

definition has_id :: "nat \<Rightarrow> doc \<Rightarrow> bool" where
  "has_id oid d = (map_of d ''_id'' = Some (JOid oid))"

subsection \<open>Concrete data for examples\<close>

definition empty_store :: store where
  "empty_store = \<lparr>colls = (\<lambda>c. []), next_oid = 0\<rparr>"

definition no_update :: ProductUpdate where
  "no_update = \<lparr>pu_name = Unset, pu_sku = Unset, pu_brand = Unset, pu_category = Unset,
     pu_barcode = Unset, pu_price = Unset, pu_tax_class = Unset, pu_esl_id = Unset,
     pu_stock = Unset, pu_active = Unset\<rparr>"

definition no_product :: product_body where
  "no_product = \<lparr>pb_name = Unset, pb_sku = Unset, pb_brand = Unset, pb_category = Unset,
     pb_barcode = Unset, pb_price = Unset, pb_tax_class = Unset, pb_esl_id = Unset,
     pb_stock = Unset, pb_active = Unset\<rparr>"

definition no_label :: label_body where
  "no_label = \<lparr>lb_esl_id = Unset, lb_status = Unset, lb_battery = Unset,
     lb_last_sync = Unset, lb_product_sku = Unset\<rparr>"

text \<open>A key with a value, or nothing: the shape of one field of the update dict.\<close>

definition kv :: "string \<Rightarrow> json option \<Rightarrow> doc" where
  "kv k x = (case x of None \<Rightarrow> [] | Some v \<Rightarrow> [(k, v)])"

definition product_x1 :: doc where
  "product_x1 = [(''name'', JStr ''Alfa 20''), (''sku'', JStr ''X1''), (''brand'', JNull),
     (''price'', JFloat 5), (''_id'', JOid 161)]"

definition label_e1 :: doc where
  "label_e1 = [(''esl_id'', JStr ''E1''), (''status'', JStr ''idle''), (''battery'', JInt 80),
     (''_id'', JOid 162)]"

definition store_x1 :: store where
  "store_x1 = \<lparr>colls = (\<lambda>c. if c = ''tobaccoproduct'' then [product_x1]
                          else if c = ''label'' then [label_e1] else []),
               next_oid = 163\<rparr>"

definition price_update_x1 :: PriceUpdate where
  "price_update_x1 = \<lparr>px_product_sku = ''X1'', px_old_price = 5, px_new_price = Some 12.5,
     px_scheduled_at = None, px_status = ''done'', px_note = None\<rparr>"

definition body_mg20 :: product_body where
  "body_mg20 = no_product\<lparr>pb_name := Val ''Marlboro Gold 20'', pb_sku := Val ''MG20'',
     pb_price := Val 5.5\<rparr>"

definition body_negative :: product_body where
  "body_negative = no_product\<lparr>pb_name := Val ''Bad'', pb_sku := Val ''B1'',
     pb_price := Val (- 1)\<rparr>"

definition product_mg20 :: TobaccoProduct where
  "product_mg20 = \<lparr>tp_name = ''Marlboro Gold 20'', tp_sku = ''MG20'', tp_brand = None,
     tp_category = Some ''Tabacco'', tp_barcode = None, tp_price = 5.5,
     tp_tax_class = Some ''AAMS'', tp_esl_id = None, tp_stock = Some 0, tp_active = True\<rparr>"

definition store_mg20 :: store where
  "store_mg20 = \<lparr>colls = (\<lambda>c. if c = ''tobaccoproduct''
                               then [model_dump_TobaccoProduct product_mg20 @ [(''_id'', JOid 0)]]
                               else []),
                 next_oid = 1\<rparr>"

definition body_caret :: product_body where
  "body_caret = no_product\<lparr>pb_name := Val ''Marlboro Gold 20'', pb_sku := Val ''MG^20'',
     pb_price := Val 5.5\<rparr>"

subsection \<open>The connectivity probe\<close>

text \<open>
  \<open>test_database\<close> only observes the handle: whether it is \<^verbatim>\<open>None\<close>, what reading its
  attribute \<^verbatim>\<open>name\<close> gives (no such attribute, a value, or an exception), and what
  \<^verbatim>\<open>list_collection_names()\<close> gives (the names, or an exception with its message). The
  strings of the response hold code points beyond ASCII, so they are lists of code points
  here, and \<^verbatim>\<open>str(e)[:50]\<close> counts code points. The second argument is the value of the
  environment variable \<^verbatim>\<open>DATABASE_URL\<close>. The response is mutated in place, so what was
  written before an exception stays in it. The outcome is a sum, \<open>Inl\<close> for an exception
  that would leave the handler.
\<close>

type_synonym ustr = "nat list"

definition ascii :: "string \<Rightarrow> ustr" where
  "ascii s = map of_char s"

definition check_mark :: ustr where
  "check_mark = [0x2705]"

definition cross_mark :: ustr where
  "cross_mark = [0x274C]"

definition warning_sign :: ustr where
  "warning_sign = [0x26A0, 0xFE0F]"

datatype name_attr = No_name | Name ustr | Name_raises ustr

record handle =
  name_attr :: name_attr
  list_collection_names :: "ustr + ustr list"

record test_response =
  backend :: ustr
  database :: ustr
  database_url :: "ustr option"
  database_name :: "ustr option"
  connection_status :: ustr
  collections :: "ustr list"

definition initial_response :: test_response where
  "initial_response =
     \<lparr>backend = check_mark @ ascii '' Running'',
      database = cross_mark @ ascii '' Not Available'',
      database_url = None,
      database_name = None,
      connection_status = ascii ''Not Connected'',
      collections = []\<rparr>"

text \<open>The inner \<^verbatim>\<open>try\<close>: the listing of the collections.\<close>

definition probe :: "handle \<Rightarrow> test_response \<Rightarrow> test_response" where
  "probe h r =
     (case list_collection_names h of
        Inr cs \<Rightarrow> r\<lparr>collections := take 10 cs\<rparr>
      | Inl msg \<Rightarrow>
          r\<lparr>database := warning_sign @ ascii ''  Connected but Error: '' @ take 50 msg\<rparr>)"

text \<open>
  The body of the outer \<^verbatim>\<open>try\<close>: the message of an exception it raises, if any, and
  the response as it stands then.
\<close>

definition try_body ::
  "handle option \<Rightarrow> string option \<Rightarrow> test_response \<Rightarrow> ustr option \<times> test_response" where
  "try_body db url r =
     (case db of
        None \<Rightarrow> (None, r\<lparr>database := warning_sign @ ascii ''  Available but not initialized''\<rparr>)
      | Some h \<Rightarrow>
          (let r1 = r\<lparr>database := check_mark @ ascii '' Connected & Working''\<rparr>;
               r2 = r1\<lparr>database_url :=
                        Some (if url \<noteq> None \<and> url \<noteq> Some []
                              then check_mark @ ascii '' Set''
                              else cross_mark @ ascii '' Not Set'')\<rparr>
           in case name_attr h of
                Name_raises msg \<Rightarrow> (Some msg, r2)
              | Name n \<Rightarrow>
                  (None, probe h (r2\<lparr>database_name := Some n,
                                     connection_status := ascii ''Connected''\<rparr>))
              | No_name \<Rightarrow>
                  (None, probe h (r2\<lparr>database_name := Some (check_mark @ ascii '' Connected''),
                                     connection_status := ascii ''Connected''\<rparr>))))"

definition test_database :: "handle option \<Rightarrow> string option \<Rightarrow> ustr + test_response" where
  "test_database db url =
     (case try_body db url initial_response of
        (None, r) \<Rightarrow> Inr r
      | (Some msg, r) \<Rightarrow> Inr (r\<lparr>database := cross_mark @ ascii '' Error: '' @ take 50 msg\<rparr>))"

definition failing_handle :: handle where
  "failing_handle = \<lparr>name_attr = Name (ascii ''esl''),
     list_collection_names = Inl (ascii ''ServerSelectionTimeoutError: localhost:27017: [Errno 111] Connection refused'')\<rparr>"

section \<open>Properties\<close>

subsection \<open>Helper facts\<close>

lemma filter_dump_field_Nil:
  "(\<And>v. conv v \<noteq> JNull) \<Longrightarrow>
   (filter (\<lambda>(k, v). v \<noteq> JNull) (dump_field k conv f) = []) = (\<not> is_val f)"
  by (cases f) simp_all

lemma updates_dict_Nil:
  "(filter (\<lambda>(k, v). v \<noteq> JNull) (model_dump_exclude_unset u) = []) = (\<not> has_value u)"
  by (simp add: model_dump_exclude_unset_def has_value_def filter_dump_field_Nil)

lemma ObjectId_not_an_id: "ObjectId ''not-an-id'' = Inl (InvalidId ''not-an-id'')"
  by (simp add: ObjectId_def)

lemma ObjectId_a1: "ObjectId ''0000000000000000000000a1'' = Inr 161"
  by code_simp

subsection \<open>Partial update of a product: the identifier and the empty body\<close>

text \<open>
  C10, as stated, fails: the claim puts no condition on the store, and while the handle is
  \<^verbatim>\<open>None\<close> the handler raises 500 before it tests the field set.
\<close>

theorem update_product_empty_body_counterexample:
  "\<not> has_value no_update \<and>
   update_product None ''not-an-id'' no_update =
     (Inl (HTTPException 500 ''Database not available''), None) \<and>
   status_code (HTTPException 500 ''Database not available'') = 500"
  by (simp add: update_product_def has_value_def no_update_def)

text \<open>
  C10, amended. While the store handle is available, a \<^verbatim>\<open>PATCH /api/products/{id}\<close>
  whose body has every field absent or null returns \<^verbatim>\<open>{updated: 0}\<close> for every identifier
  string, valid or not: the test of the empty field set comes before the identifier is
  parsed and before any store operation, and the store is left as it was.
\<close>

theorem update_product_empty_body:
  "\<not> has_value updates \<Longrightarrow>
   update_product (Some s) product_id updates = (Inr [(''updated'', JInt 0)], Some s)"
  by (simp add: update_product_def updates_dict_Nil)

theorem update_product_empty_body_witness:
  "\<not> has_value (no_update\<lparr>pu_price := Null\<rparr>) \<and>
   ObjectId ''not-an-id'' = Inl (InvalidId ''not-an-id'') \<and>
   update_product (Some empty_store) ''not-an-id'' (no_update\<lparr>pu_price := Null\<rparr>) =
     (Inr [(''updated'', JInt 0)], Some empty_store)"
  using update_product_empty_body [of "no_update\<lparr>pu_price := Null\<rparr>" empty_store "''not-an-id''"]
  by (simp add: has_value_def no_update_def ObjectId_not_an_id)

text \<open>
  C2, as stated, fails: a malformed identifier with a body that sets no value is answered
  \<^verbatim>\<open>{updated: 0}\<close>, not 400.
\<close>

theorem update_product_malformed_id_counterexample:
  "ObjectId ''zz'' = Inl (InvalidId ''zz'') \<and>
   update_product (Some empty_store) ''zz'' no_update =
     (Inr [(''updated'', JInt 0)], Some empty_store)"
  by (simp add: ObjectId_def update_product_def model_dump_exclude_unset_def no_update_def)

text \<open>
  C2, amended. A \<^verbatim>\<open>PATCH /api/products/{id}\<close> with a malformed identifier and a body
  that has at least one present, non-null field fails with HTTP 400 when the store is
  available, and the store is left as it was; while the store handle is unavailable the
  request fails with HTTP 500.
\<close>

theorem update_product_malformed_id:
  assumes "ObjectId product_id = Inl e"
  shows "(has_value updates \<longrightarrow>
           update_product (Some s) product_id updates =
             (Inl (HTTPException 400 (str_exc e)), Some s)) \<and>
         update_product None product_id updates =
           (Inl (HTTPException 500 ''Database not available''), None)"
  using assms by (simp add: update_product_def updates_dict_Nil)

theorem update_product_malformed_id_witness:
  "has_value (no_update\<lparr>pu_price := Val 7\<rparr>) \<and>
   fst (update_product (Some empty_store) ''not-an-id'' (no_update\<lparr>pu_price := Val 7\<rparr>)) =
     Inl (HTTPException 400 (str_exc (InvalidId ''not-an-id''))) \<and>
   snd (update_product (Some empty_store) ''not-an-id'' (no_update\<lparr>pu_price := Val 7\<rparr>)) =
     Some empty_store \<and>
   status_code (HTTPException 400 (str_exc (InvalidId ''not-an-id''))) = 400 \<and>
   fst (update_product None ''not-an-id'' (no_update\<lparr>pu_price := Val 7\<rparr>)) =
     Inl (HTTPException 500 ''Database not available'')"
  using update_product_malformed_id [OF ObjectId_not_an_id, of "no_update\<lparr>pu_price := Val 7\<rparr>" empty_store]
  by (simp add: has_value_def no_update_def)

subsection \<open>Partial update of a label: the identifier\<close>

text \<open>
  C3. The claim asks for HTTP 400 on a malformed identifier. \<open>update_label\<close> parses the
  identifier outside any \<^verbatim>\<open>try\<close>: at the identifier \<^verbatim>\<open>not-an-id\<close> the exception
  \<^verbatim>\<open>InvalidId\<close> leaves the handler uncaught, which the framework answers with 500.
\<close>

theorem update_label_malformed_id_uncaught:
  "update_label (Some empty_store) ''not-an-id'' [(''status'', JStr ''idle'')] =
     (Inl (Uncaught (InvalidId ''not-an-id'')), Some empty_store) \<and>
   status_code (Uncaught (InvalidId ''not-an-id'')) = 500"
  by (simp add: update_label_def ObjectId_not_an_id)

subsection \<open>Helper facts on documents and updates\<close>

lemma map_of_assign: "map_of (assign k v d) k' = (if k' = k then Some v else map_of d k')"
  by (induction d) auto

lemma map_of_apply_set:
  "distinct (map fst us) \<Longrightarrow>
   map_of (apply_set us d) k = (case map_of us k of Some v \<Rightarrow> Some v | None \<Rightarrow> map_of d k)"
proof (induction us arbitrary: d)
  case Nil
  then show ?case by simp
next
  case (Cons a us)
  obtain k0 v0 where a: "a = (k0, v0)" by (cases a)
  from Cons.prems a have "k0 \<notin> fst ` set us" and "distinct (map fst us)" by auto
  then have none: "map_of us k0 = None" by (simp add: map_of_eq_None_iff)
  show ?case
    using Cons.IH [OF \<open>distinct (map fst us)\<close>, of "assign k0 v0 d"] a none
    by (auto simp: map_of_assign split: option.splits)
qed

lemma update_first_no_match:
  "list_all (\<lambda>x. \<not> P x) ds \<Longrightarrow> update_first P us ds = (0, ds)"
  by (induction ds) auto

lemma update_first_match:
  "list_all (\<lambda>x. \<not> P x) pre \<Longrightarrow> P d \<Longrightarrow>
   update_first P us (pre @ d # post) =
     ((if apply_set us d = d then 0 else 1), pre @ apply_set us d # post)"
  by (induction pre) auto

lemma update_first_le: "fst (update_first P us ds) \<le> 1"
  by (induction ds) (auto split: prod.splits)

lemma fmatch_id: "fmatch (Fields [(''_id'', Eq (JOid oid))]) = has_id oid"
  by (rule ext) (simp add: has_id_def)

lemma filter_dump_field:
  "(\<And>v. conv v \<noteq> JNull) \<Longrightarrow>
   filter (\<lambda>(k, v). v \<noteq> JNull) (dump_field k conv f) =
     (case given conv f of None \<Rightarrow> [] | Some v \<Rightarrow> [(k, v)])"
  by (cases f) simp_all

lemma map_of_kv_append:
  "map_of (kv k x @ rest) k' = (if k' = k \<and> x \<noteq> None then x else map_of rest k')"
  by (cases x) (simp_all add: kv_def)

lemma updates_dict_kv:
  "filter (\<lambda>(k, v). v \<noteq> JNull) (model_dump_exclude_unset u) =
     kv ''name'' (given JStr (pu_name u)) @
     kv ''sku'' (given JStr (pu_sku u)) @
     kv ''brand'' (given JStr (pu_brand u)) @
     kv ''category'' (given JStr (pu_category u)) @
     kv ''barcode'' (given JStr (pu_barcode u)) @
     kv ''price'' (given JFloat (pu_price u)) @
     kv ''tax_class'' (given JStr (pu_tax_class u)) @
     kv ''esl_id'' (given JStr (pu_esl_id u)) @
     kv ''stock'' (given JInt (pu_stock u)) @
     kv ''active'' (given JBool (pu_active u)) @ []"
  by (simp add: model_dump_exclude_unset_def filter_dump_field kv_def)

lemma map_of_updates_dict:
  "map_of (filter (\<lambda>(k, v). v \<noteq> JNull) (model_dump_exclude_unset u)) k = present u k"
  unfolding updates_dict_kv
  by (simp only: map_of_kv_append present_def) auto

lemma subseq_distinct_keys: "subseq xs ys \<Longrightarrow> distinct ys \<Longrightarrow> distinct xs"
proof (induction rule: list_emb.induct)
  case (list_emb_Nil ys)
  then show ?case by simp
next
  case (list_emb_Cons xs ys y)
  then show ?case by simp
next
  case (list_emb_Cons2 x y xs ys)
  then have "x \<notin> set xs" by (auto dest: list_emb_set)
  with list_emb_Cons2 show ?case by simp
qed

lemma subseq_kv:
  "subseq (map fst rest) ks \<Longrightarrow> subseq (map fst (kv k x @ rest)) (k # ks)"
  by (cases x) (auto simp: kv_def)

lemma distinct_updates_dict:
  "distinct (map fst (filter (\<lambda>(k, v). v \<noteq> JNull) (model_dump_exclude_unset u)))"
  unfolding updates_dict_kv
  apply (rule subseq_distinct_keys [where ys = "[''name'', ''sku'', ''brand'', ''category'',
      ''barcode'', ''price'', ''tax_class'', ''esl_id'', ''stock'', ''active'']"])
   apply (intro subseq_kv)
   apply simp
  apply simp
  done

lemma ObjectId_a2: "ObjectId ''0000000000000000000000a2'' = Inr 162"
  by code_simp

subsection \<open>Partial update of a product: what is written\<close>

text \<open>
  C6. With the store available and a well-formed identifier, \<^verbatim>\<open>PATCH /api/products/{id}\<close>
  changes at most the first product that carries the identifier, and nothing in any other
  collection. In that product every key reads the body's value where the body has the
  field present and non-null, and its stored value otherwise. When no product carries the
  identifier, or when every field of the body is absent or null, the store is unchanged
  and the answer is \<^verbatim>\<open>{updated: 0}\<close>.
\<close>

theorem update_product_writes_present_fields:
  assumes "ObjectId product_id = Inr oid"
  shows "\<exists>n s'. update_product (Some s) product_id updates =
            (Inr [(''updated'', JInt (int n))], Some s') \<and> n \<le> 1 \<and>
          (\<forall>c. c \<noteq> ''tobaccoproduct'' \<longrightarrow> colls s' c = colls s c) \<and>
          (\<forall>pre d post.
              colls s ''tobaccoproduct'' = pre @ d # post \<and>
              list_all (\<lambda>x. \<not> has_id oid x) pre \<and> has_id oid d \<longrightarrow>
              (\<exists>d'. colls s' ''tobaccoproduct'' = pre @ d' # post \<and>
                 (\<forall>k. map_of d' k =
                    (case present updates k of Some v \<Rightarrow> Some v | None \<Rightarrow> map_of d k)))) \<and>
          (list_all (\<lambda>x. \<not> has_id oid x) (colls s ''tobaccoproduct'') \<longrightarrow> s' = s \<and> n = 0) \<and>
          (\<not> has_value updates \<longrightarrow> s' = s \<and> n = 0)"
proof (cases "has_value updates")
  case False
  then have "update_product (Some s) product_id updates = (Inr [(''updated'', JInt (int 0))], Some s)"
    by (simp add: update_product_def updates_dict_Nil)
  moreover have "\<forall>k. present updates k = None"
    using False map_of_updates_dict [of updates] updates_dict_Nil [of updates] by (metis map_of.simps(1))
  ultimately show ?thesis
    using False by (intro exI [of _ 0] exI [of _ s]) auto
next
  case True
  define us where "us = filter (\<lambda>(k, v). v \<noteq> JNull) (model_dump_exclude_unset updates)"
  define r where "r = update_first (has_id oid) us (colls s ''tobaccoproduct'')"
  define s' where "s' = s\<lparr>colls := (colls s)(''tobaccoproduct'' := snd r)\<rparr>"
  have call: "update_product (Some s) product_id updates =
      (Inr [(''updated'', JInt (int (fst r)))], Some s')"
    using True assms updates_dict_Nil [of updates]
    by (simp add: update_product_def update_one_def fmatch_id us_def r_def s'_def split: prod.splits)
  have le: "fst r \<le> 1" unfolding r_def by (rule update_first_le)
  have frame: "\<forall>c. c \<noteq> ''tobaccoproduct'' \<longrightarrow> colls s' c = colls s c"
    by (simp add: s'_def)
  have hit: "\<exists>d'. colls s' ''tobaccoproduct'' = pre @ d' # post \<and>
                 (\<forall>k. map_of d' k =
                    (case present updates k of Some v \<Rightarrow> Some v | None \<Rightarrow> map_of d k))"
    if "colls s ''tobaccoproduct'' = pre @ d # post" "list_all (\<lambda>x. \<not> has_id oid x) pre" "has_id oid d"
    for pre d post
  proof -
    have "snd r = pre @ apply_set us d # post"
      unfolding r_def that(1) using update_first_match [OF that(2) that(3)] by simp
    moreover have "\<forall>k. map_of (apply_set us d) k =
        (case present updates k of Some v \<Rightarrow> Some v | None \<Rightarrow> map_of d k)"
      using map_of_apply_set [of us d] distinct_updates_dict [of updates] map_of_updates_dict [of updates]
      by (simp add: us_def)
    ultimately show ?thesis by (simp add: s'_def)
  qed
  have miss: "s' = s \<and> fst r = 0" if "list_all (\<lambda>x. \<not> has_id oid x) (colls s ''tobaccoproduct'')"
    using update_first_no_match [OF that, of us] by (simp add: r_def s'_def)
  show ?thesis
    using call le frame hit miss True by (intro exI [of _ "fst r"] exI [of _ s']) blast
qed

theorem update_product_writes_present_fields_witness:
  "ObjectId ''0000000000000000000000a1'' = Inr 161 \<and>
   (\<exists>n s' d'. update_product (Some store_x1) ''0000000000000000000000a1''
                 (no_update\<lparr>pu_price := Val 7, pu_brand := Null\<rparr>) =
                 (Inr [(''updated'', JInt (int n))], Some s') \<and>
      colls s' ''tobaccoproduct'' = [d'] \<and>
      map_of d' ''price'' = Some (JFloat 7) \<and>
      map_of d' ''brand'' = Some JNull \<and>
      map_of d' ''name'' = Some (JStr ''Alfa 20'') \<and>
      colls s' ''label'' = [label_e1])"
proof -
  let ?u = "no_update\<lparr>pu_price := Val 7, pu_brand := Null\<rparr>"
  obtain n s' where call: "update_product (Some store_x1) ''0000000000000000000000a1'' ?u =
        (Inr [(''updated'', JInt (int n))], Some s')"
    and frame: "\<forall>c. c \<noteq> ''tobaccoproduct'' \<longrightarrow> colls s' c = colls store_x1 c"
    and hit: "\<forall>pre d post.
              colls store_x1 ''tobaccoproduct'' = pre @ d # post \<and>
              list_all (\<lambda>x. \<not> has_id 161 x) pre \<and> has_id 161 d \<longrightarrow>
              (\<exists>d'. colls s' ''tobaccoproduct'' = pre @ d' # post \<and>
                 (\<forall>k. map_of d' k =
                    (case present ?u k of Some v \<Rightarrow> Some v | None \<Rightarrow> map_of d k)))"
    using update_product_writes_present_fields [OF ObjectId_a1, of store_x1 ?u] by blast
  have "colls store_x1 ''tobaccoproduct'' = [] @ product_x1 # [] \<and>
        list_all (\<lambda>x. \<not> has_id 161 x) [] \<and> has_id 161 product_x1"
    by (simp add: store_x1_def product_x1_def has_id_def)
  with hit obtain d' where d': "colls s' ''tobaccoproduct'' = [] @ d' # []"
    and m: "\<forall>k. map_of d' k = (case present ?u k of Some v \<Rightarrow> Some v | None \<Rightarrow> map_of product_x1 k)"
    by blast
  have "map_of d' ''price'' = Some (JFloat 7)"
    using m by (simp add: present_def no_update_def)
  moreover have "map_of d' ''brand'' = Some JNull"
    using m by (simp add: present_def no_update_def product_x1_def)
  moreover have "map_of d' ''name'' = Some (JStr ''Alfa 20'')"
    using m by (simp add: present_def no_update_def product_x1_def)
  moreover have "colls s' ''label'' = [label_e1]"
    using frame by (simp add: store_x1_def)
  ultimately show ?thesis
    using call d' ObjectId_a1 by auto
qed

subsection \<open>Partial update of a label: the body is written as it is\<close>

text \<open>
  C8. With the store available and a well-formed identifier that a stored label carries,
  \<^verbatim>\<open>PATCH /api/labels/{id}\<close> takes the body as an arbitrary object, with no schema
  validation, and writes every key-value pair of it to that label; the keys the body does
  not name keep their values. This includes values the creation schema rejects: a body
  with battery 150 fails \<open>validate_Label\<close>, and is stored all the same.
\<close>

theorem update_label_writes_payload:
  assumes "ObjectId label_id = Inr oid"
    and "distinct (map fst payload)"
    and "colls s ''label'' = pre @ d # post"
    and "list_all (\<lambda>x. \<not> has_id oid x) pre"
    and "has_id oid d"
  shows "\<exists>n d'. update_label (Some s) label_id payload =
            (Inr [(''updated'', JInt (int n))],
             Some (s\<lparr>colls := (colls s)(''label'' := pre @ d' # post)\<rparr>)) \<and>
          (\<forall>(k, v) \<in> set payload. map_of d' k = Some v) \<and>
          (\<forall>k. k \<notin> fst ` set payload \<longrightarrow> map_of d' k = map_of d k) \<and>
          (\<forall>b. validate_Label (b\<lparr>lb_battery := Val 150\<rparr>) \<notin> range Inr)"
proof -
  let ?d' = "apply_set payload d"
  let ?n = "if ?d' = d then 0 else (1::nat)"
  have "update_label (Some s) label_id payload =
      (Inr [(''updated'', JInt (int ?n))], Some (s\<lparr>colls := (colls s)(''label'' := pre @ ?d' # post)\<rparr>))"
    using assms(1) update_first_match [OF assms(4) assms(5), of payload post]
    by (simp add: update_label_def update_one_def fmatch_id assms(3))
  moreover have "\<forall>(k, v) \<in> set payload. map_of ?d' k = Some v"
    using assms(2) by (auto simp: map_of_apply_set)
  moreover have "\<forall>k. k \<notin> fst ` set payload \<longrightarrow> map_of ?d' k = map_of d k"
  proof (intro allI impI)
    fix k assume "k \<notin> fst ` set payload"
    then have "map_of payload k = None" by (simp add: map_of_eq_None_iff)
    then show "map_of ?d' k = map_of d k" by (simp add: map_of_apply_set [OF assms(2)])
  qed
  moreover have "\<forall>b. validate_Label (b\<lparr>lb_battery := Val 150\<rparr>) \<notin> range Inr"
    by (auto simp: validate_Label_def split: field.splits)
  ultimately show ?thesis by blast
qed

theorem update_label_writes_payload_witness:
  "ObjectId ''0000000000000000000000a2'' = Inr 162 \<and>
   (\<exists>n d'. update_label (Some store_x1) ''0000000000000000000000a2''
              [(''battery'', JInt 150), (''colour'', JStr ''red'')] =
              (Inr [(''updated'', JInt (int n))],
               Some (store_x1\<lparr>colls := (colls store_x1)(''label'' := [d'])\<rparr>)) \<and>
      map_of d' ''battery'' = Some (JInt 150) \<and>
      map_of d' ''colour'' = Some (JStr ''red'') \<and>
      map_of d' ''esl_id'' = Some (JStr ''E1'')) \<and>
   validate_Label (no_label\<lparr>lb_esl_id := Val ''E1'', lb_battery := Val 150\<rparr>) = Inl ''battery''"
proof -
  let ?p = "[(''battery'', JInt 150), (''colour'', JStr ''red'')]"
  have h: "distinct (map fst ?p)" "colls store_x1 ''label'' = [] @ label_e1 # []"
    "list_all (\<lambda>x. \<not> has_id 162 x) []" "has_id 162 label_e1"
    by (simp_all add: store_x1_def label_e1_def has_id_def)
  from update_label_writes_payload [OF ObjectId_a2 h]
  obtain n d' where call: "update_label (Some store_x1) ''0000000000000000000000a2'' ?p =
            (Inr [(''updated'', JInt (int n))],
             Some (store_x1\<lparr>colls := (colls store_x1)(''label'' := [] @ d' # [])\<rparr>))"
    and w: "\<forall>(k, v) \<in> set ?p. map_of d' k = Some v"
    and k: "\<forall>k. k \<notin> fst ` set ?p \<longrightarrow> map_of d' k = map_of label_e1 k"
    by blast
  have "map_of d' ''battery'' = Some (JInt 150)" "map_of d' ''colour'' = Some (JStr ''red'')"
    using w by simp_all
  moreover have "map_of d' ''esl_id'' = Some (JStr ''E1'')"
    using k by (simp add: label_e1_def)
  moreover have "validate_Label (no_label\<lparr>lb_esl_id := Val ''E1'', lb_battery := Val 150\<rparr>) = Inl ''battery''"
    by (simp add: validate_Label_def no_label_def)
  ultimately show ?thesis using call ObjectId_a2 by auto
qed

subsection \<open>Creating a price update\<close>

lemma create_price_update_available:
  "create_price_update (Some s) u =
     (Inl (Uncaught NotImplementedError),
      Some (s\<lparr>colls := (colls s)(''priceupdate'' :=
                 colls s ''priceupdate'' @
                 [model_dump_PriceUpdate u @ [(''_id'', JOid (next_oid s))]]),
              next_oid := Suc (next_oid s)\<rparr>))"
  by (simp add: create_price_update_def create_document_def truth_test_def)

text \<open>
  C1. The claim asks for \<^verbatim>\<open>{id: <identifier>}\<close> and, with \<open>new_price\<close> present and the
  store available, for a second write that overwrites the product's price. The handler
  inserts the record and then tests \<^verbatim>\<open>if db and ...\<close>: on an available store the truth test
  of the handle raises. With a product of sku \<^verbatim>\<open>X1\<close> and price 5 stored, a price update
  to 12.5 leaves the record inserted, the exception uncaught (the framework answers 500),
  no identifier returned and the product as it was.
\<close>

theorem create_price_update_truth_test_raises:
  "\<exists>s'. create_price_update (Some store_x1) price_update_x1 =
          (Inl (Uncaught NotImplementedError), Some s') \<and>
        status_code (Uncaught NotImplementedError) = 500 \<and>
        colls s' ''priceupdate'' =
          [model_dump_PriceUpdate price_update_x1 @ [(''_id'', JOid 163)]] \<and>
        colls s' ''tobaccoproduct'' = [product_x1] \<and>
        map_of product_x1 ''sku'' = Some (JStr (px_product_sku price_update_x1)) \<and>
        px_new_price price_update_x1 = Some 12.5 \<and>
        map_of product_x1 ''price'' = Some (JFloat 5)"
  unfolding create_price_update_available
  by (simp add: store_x1_def product_x1_def price_update_x1_def)

subsection \<open>Bulk creation of products\<close>


lemma validate_items_invalid:
  "\<not> list_all is_valid_product bs \<Longrightarrow> \<exists>d. validate_items bs = Inl d"
  by (induction bs) (auto simp: is_valid_product_def split: sum.splits)

lemma validate_items_valid:
  "list_all is_valid_product bs \<Longrightarrow>
   \<exists>ps. validate_items bs = Inr ps \<and>
        list_all2 (\<lambda>b p. validate_TobaccoProduct b = Inr p) bs ps"
  by (induction bs) (auto simp: is_valid_product_def split: sum.splits)

lemma bulk_loop_available:
  "bulk_loop (Some s) ps acc =
     (Inr (acc @ map str_oid [next_oid s..<next_oid s + length ps]),
      Some (s\<lparr>colls := (colls s)(''tobaccoproduct'' :=
                 colls s ''tobaccoproduct'' @
                 numbered (next_oid s) (map model_dump_TobaccoProduct ps)),
              next_oid := next_oid s + length ps\<rparr>))"
proof (induction ps arbitrary: s acc)
  case Nil
  then show ?case by simp
next
  case (Cons p ps)
  let ?s1 = "s\<lparr>colls := (colls s)(''tobaccoproduct'' :=
                 colls s ''tobaccoproduct'' @
                 [model_dump_TobaccoProduct p @ [(''_id'', JOid (next_oid s))]]),
              next_oid := Suc (next_oid s)\<rparr>"
  have step: "create_document (Some s) ''tobaccoproduct'' (model_dump_TobaccoProduct p) =
      (Inr (str_oid (next_oid s)), Some ?s1)"
    by (simp add: create_document_def)
  have range: "[next_oid s..<Suc (next_oid s + length ps)] =
      next_oid s # [Suc (next_oid s)..<Suc (next_oid s + length ps)]"
    by (rule upt_conv_Cons) simp
  have fn: "(\<lambda>a. if a = ''tobaccoproduct'' then X
                 else if a = ''tobaccoproduct'' then Y else colls s a) =
            (\<lambda>a. if a = ''tobaccoproduct'' then X else colls s a)" for X Y
    by (rule ext) simp
  show ?case
    unfolding bulk_loop.simps step
    by (simp add: Cons.IH [of ?s1] range fn del: upt_Suc)
qed

lemma validate_mg20: "validate_TobaccoProduct body_mg20 = Inr product_mg20"
  by (simp add: validate_TobaccoProduct_def body_mg20_def no_product_def product_mg20_def)

lemma validate_negative: "validate_TobaccoProduct body_negative = Inl ''price''"
  by (simp add: validate_TobaccoProduct_def body_negative_def no_product_def)

text \<open>
  C4. A bulk request with an item that fails the product schema is refused before the
  handler runs: nothing is inserted and the store is as it was. A bulk request whose
  \<open>N\<close> items are all valid, on an available store, appends the \<open>N\<close> validated items to
  the collection in the order of the request, each under the next identifier, and answers
  with these \<open>N\<close> identifiers in order and the count \<open>N\<close>.
\<close>


theorem bulk_create_all_or_nothing:
  "(\<not> list_all is_valid_product body \<longrightarrow>
      (\<exists>d. post_products_bulk db body = (Inl (RequestValidationError d), db))) \<and>
   (list_all is_valid_product body \<longrightarrow>
      (\<exists>ps. list_all2 (\<lambda>b p. validate_TobaccoProduct b = Inr p) body ps \<and>
         post_products_bulk (Some s) body =
           (Inr [(''inserted'', JList (map JStr (map str_oid [next_oid s..<next_oid s + length body]))),
                 (''count'', JInt (int (length body)))],
            Some (s\<lparr>colls := (colls s)(''tobaccoproduct'' :=
                       colls s ''tobaccoproduct'' @
                       numbered (next_oid s) (map model_dump_TobaccoProduct ps)),
                    next_oid := next_oid s + length body\<rparr>))))"
proof (intro conjI impI)
  assume "\<not> list_all is_valid_product body"
  then obtain d where "validate_items body = Inl d"
    using validate_items_invalid by blast
  then show "\<exists>d. post_products_bulk db body = (Inl (RequestValidationError d), db)"
    by (simp add: post_products_bulk_def validate_BulkProducts_def)
next
  assume "list_all is_valid_product body"
  then obtain ps where ps: "validate_items body = Inr ps"
    and rel: "list_all2 (\<lambda>b p. validate_TobaccoProduct b = Inr p) body ps"
    using validate_items_valid by blast
  from rel have len: "length ps = length body" by (simp add: list_all2_lengthD)
  have "post_products_bulk (Some s) body =
           (Inr [(''inserted'', JList (map JStr (map str_oid [next_oid s..<next_oid s + length body]))),
                 (''count'', JInt (int (length body)))],
            Some (s\<lparr>colls := (colls s)(''tobaccoproduct'' :=
                       colls s ''tobaccoproduct'' @
                       numbered (next_oid s) (map model_dump_TobaccoProduct ps)),
                    next_oid := next_oid s + length body\<rparr>))"
    by (simp add: post_products_bulk_def validate_BulkProducts_def ps create_products_bulk_def
        bulk_loop_available len)
  with rel show "\<exists>ps. list_all2 (\<lambda>b p. validate_TobaccoProduct b = Inr p) body ps \<and>
         post_products_bulk (Some s) body =
           (Inr [(''inserted'', JList (map JStr (map str_oid [next_oid s..<next_oid s + length body]))),
                 (''count'', JInt (int (length body)))],
            Some (s\<lparr>colls := (colls s)(''tobaccoproduct'' :=
                       colls s ''tobaccoproduct'' @
                       numbered (next_oid s) (map model_dump_TobaccoProduct ps)),
                    next_oid := next_oid s + length body\<rparr>))"
    by blast
qed

theorem bulk_create_all_or_nothing_witness:
  "\<not> list_all is_valid_product [body_mg20, body_negative] \<and>
   (\<exists>d. post_products_bulk (Some store_x1) [body_mg20, body_negative] =
          (Inl (RequestValidationError d), Some store_x1)) \<and>
   list_all is_valid_product [body_mg20, body_mg20] \<and>
   (\<exists>s'. post_products_bulk (Some store_x1) [body_mg20, body_mg20] =
           (Inr [(''inserted'', JList [JStr (str_oid 163), JStr (str_oid 164)]),
                 (''count'', JInt 2)], Some s') \<and>
          colls s' ''tobaccoproduct'' =
            [product_x1,
             model_dump_TobaccoProduct product_mg20 @ [(''_id'', JOid 163)],
             model_dump_TobaccoProduct product_mg20 @ [(''_id'', JOid 164)]])"
proof -
  have bad: "\<not> list_all is_valid_product [body_mg20, body_negative]"
    by (simp add: is_valid_product_def validate_mg20 validate_negative)
  have good: "list_all is_valid_product [body_mg20, body_mg20]"
    by (simp add: is_valid_product_def validate_mg20)
  from bad bulk_create_all_or_nothing [of "[body_mg20, body_negative]" "Some store_x1"]
  have first: "\<exists>d. post_products_bulk (Some store_x1) [body_mg20, body_negative] =
          (Inl (RequestValidationError d), Some store_x1)"
    by blast
  from good bulk_create_all_or_nothing [of "[body_mg20, body_mg20]" _ store_x1]
  obtain ps where rel: "list_all2 (\<lambda>b p. validate_TobaccoProduct b = Inr p) [body_mg20, body_mg20] ps"
    and call: "post_products_bulk (Some store_x1) [body_mg20, body_mg20] =
           (Inr [(''inserted'', JList (map JStr (map str_oid
                    [next_oid store_x1..<next_oid store_x1 + length [body_mg20, body_mg20]]))),
                 (''count'', JInt (int (length [body_mg20, body_mg20])))],
            Some (store_x1\<lparr>colls := (colls store_x1)(''tobaccoproduct'' :=
                       colls store_x1 ''tobaccoproduct'' @
                       numbered (next_oid store_x1) (map model_dump_TobaccoProduct ps)),
                    next_oid := next_oid store_x1 + length [body_mg20, body_mg20]\<rparr>))"
    by blast
  from rel have ps: "ps = [product_mg20, product_mg20]"
    by (auto simp: list_all2_Cons1 validate_mg20)
  have range: "[163..<165] = [163, 164::nat]"
    by (simp add: upt_rec)
  have "\<exists>s'. post_products_bulk (Some store_x1) [body_mg20, body_mg20] =
           (Inr [(''inserted'', JList [JStr (str_oid 163), JStr (str_oid 164)]),
                 (''count'', JInt 2)], Some s') \<and>
          colls s' ''tobaccoproduct'' =
            [product_x1,
             model_dump_TobaccoProduct product_mg20 @ [(''_id'', JOid 163)],
             model_dump_TobaccoProduct product_mg20 @ [(''_id'', JOid 164)]]"
    unfolding call ps by (simp add: store_x1_def range)
  with bad good first show ?thesis by blast
qed

subsection \<open>Listing products by a query\<close>


lemma is_literal_plain: "is_literal c \<Longrightarrow> c \<noteq> CHR ''.'' \<and> c \<noteq> CHR ''^''"
  by (simp add: is_literal_def regex_meta_def)

lemma parse_regex_literal: "list_all is_literal q \<Longrightarrow> parse_regex q = Some (map PChar q)"
  by (induction q) (auto dest: is_literal_plain)

lemma match_here_literal:
  "match_here (map PChar q) b s = prefix (map lower q) (map lower s)"
proof (induction q arbitrary: s b)
  case Nil
  then show ?case by simp
next
  case (Cons c q)
  then show ?case by (cases s) auto
qed

lemma search_literal:
  "search (map PChar q) b s = sublist (map lower q) (map lower s)"
proof (induction s arbitrary: b)
  case Nil
  then show ?case by (simp add: match_here_literal)
next
  case (Cons x xs)
  then show ?case by (simp add: match_here_literal sublist_Cons_right)
qed

lemma regex_search_literal:
  "list_all is_literal q \<Longrightarrow> regex_search_i q s = sublist (map lower q) (map lower s)"
  by (simp add: regex_search_i_def parse_regex_literal search_literal)

lemma cmatch_literal:
  "list_all is_literal q \<Longrightarrow>
   cmatch (RegexI q) x =
     (case x of Some (JStr v) \<Rightarrow> sublist (map lower q) (map lower v) | _ \<Rightarrow> False)"
proof (cases x)
  case None
  then show ?thesis by simp
next
  case (Some j)
  assume "list_all is_literal q"
  with Some show ?thesis by (cases j) (simp_all add: regex_search_literal)
qed

lemma fmatch_product_query:
  "list_all is_literal q \<Longrightarrow> fmatch (product_query q) d = text_match q d"
  by (simp add: product_query_def text_match_def contains_ci_def cmatch_literal)

lemma flt_ok_product_query:
  "list_all is_literal q \<Longrightarrow> flt_ok (product_query q) = None"
  by (simp add: product_query_def parse_regex_literal)

lemma str_oid_0: "str_oid 0 = ''000000000000000000000000''"
  by code_simp

lemma str_oid_161: "str_oid 161 = ''0000000000000000000000a1''"
  by code_simp

lemma literal_marlboro: "list_all is_literal ''marlboro''"
  by (simp add: is_literal_def regex_meta_def)

lemma serialize_mg20:
  "serialize (model_dump_TobaccoProduct product_mg20 @ [(''_id'', JOid 0)]) =
     model_dump_TobaccoProduct product_mg20 @ [(''id'', JStr ''000000000000000000000000'')]"
  by (simp add: serialize_def model_dump_TobaccoProduct_def pop_def str_oid_0)

lemma list_products_of_literal:
  assumes "q \<noteq> []" and "list_all is_literal q"
  shows "list_products (Some s) (Some q) limit =
           Inr (map serialize (take (nat limit)
                  (filter (text_match q) (colls s ''tobaccoproduct''))))"
proof -
  have "fmatch (product_query q) = text_match q"
    using assms(2) by (intro ext) (rule fmatch_product_query)
  then show ?thesis
    using assms by (simp add: list_products_def get_documents_def flt_ok_product_query)
qed

text \<open>
  C5, as stated, fails: the query is a regular expression, not a plain substring. The query
  \<^verbatim>\<open>.\<close> returns a product in whose name, brand and sku no dot occurs.
\<close>


theorem list_products_regex_counterexample:
  "list_products (Some store_x1) (Some ''.'') 100 =
     Inr [[(''name'', JStr ''Alfa 20''), (''sku'', JStr ''X1''), (''brand'', JNull),
           (''price'', JFloat 5), (''id'', JStr ''0000000000000000000000a1'')]] \<and>
   \<not> sublist (map lower ''.'') (map lower ''Alfa 20'') \<and>
   \<not> sublist (map lower ''.'') (map lower ''X1'') \<and>
   \<not> text_match ''.'' product_x1"
proof -
  have a: "\<not> sublist (map lower ''.'') (map lower ''Alfa 20'')"
    by code_simp
  have b: "\<not> sublist (map lower ''.'') (map lower ''X1'')"
    by code_simp
  have c: "\<not> text_match ''.'' product_x1"
    using a b by (simp add: text_match_def contains_ci_def product_x1_def del: list.map)
  have d: "list_products (Some store_x1) (Some ''.'') 100 =
     Inr [[(''name'', JStr ''Alfa 20''), (''sku'', JStr ''X1''), (''brand'', JNull),
           (''price'', JFloat 5), (''id'', JStr ''0000000000000000000000a1'')]]"
    by (simp add: list_products_def get_documents_def product_query_def store_x1_def
        product_x1_def regex_search_i_def serialize_def pop_def str_oid_161)
  from a b c d show ?thesis by blast
qed

text \<open>
  C5, amended. For every non-empty query made of literal characters only (none of the
  metacharacters of regular expressions), on an available store, the listing returns
  the products in whose name, brand or sku the query occurs as a substring, ignoring case,
  in stored order, cut at the limit, each with \<open>id\<close> in place of the store's identifier.
\<close>


theorem list_products_literal_query:
  assumes "q \<noteq> []" and "list_all is_literal q"
  shows "list_products (Some s) (Some q) limit =
           Inr (map serialize (take (nat limit)
                  (filter (text_match q) (colls s ''tobaccoproduct''))))"
  using assms by (rule list_products_of_literal)

theorem list_products_literal_query_witness:
  "''marlboro'' \<noteq> [] \<and> list_all is_literal ''marlboro'' \<and>
   list_products (Some store_mg20) (Some ''marlboro'') 100 =
     Inr [[(''name'', JStr ''Marlboro Gold 20''), (''sku'', JStr ''MG20''), (''brand'', JNull),
           (''category'', JStr ''Tabacco''), (''barcode'', JNull), (''price'', JFloat 5.5),
           (''tax_class'', JStr ''AAMS''), (''esl_id'', JNull), (''stock'', JInt 0),
           (''active'', JBool True), (''id'', JStr ''000000000000000000000000'')]]"
proof -
  have ne: "''marlboro'' \<noteq> []" by simp
  have "sublist (map lower ''marlboro'') (map lower ''Marlboro Gold 20'')"
    by code_simp
  then have m: "text_match ''marlboro'' (model_dump_TobaccoProduct product_mg20 @ [(''_id'', JOid 0)])"
    by (simp add: text_match_def contains_ci_def model_dump_TobaccoProduct_def product_mg20_def
        del: list.map)
  have call: "list_products (Some store_mg20) (Some ''marlboro'') 100 =
      Inr (map serialize (take (nat 100)
             (filter (text_match ''marlboro'') (colls store_mg20 ''tobaccoproduct''))))"
    by (rule list_products_literal_query [OF ne literal_marlboro])
  have coll: "colls store_mg20 ''tobaccoproduct'' =
      [model_dump_TobaccoProduct product_mg20 @ [(''_id'', JOid 0)]]"
    by (simp add: store_mg20_def)
  have shown: "model_dump_TobaccoProduct product_mg20 @ [(''id'', JStr ''000000000000000000000000'')] =
      [(''name'', JStr ''Marlboro Gold 20''), (''sku'', JStr ''MG20''), (''brand'', JNull),
       (''category'', JStr ''Tabacco''), (''barcode'', JNull), (''price'', JFloat 5.5),
       (''tax_class'', JStr ''AAMS''), (''esl_id'', JNull), (''stock'', JInt 0),
       (''active'', JBool True), (''id'', JStr ''000000000000000000000000'')]"
    by (simp add: model_dump_TobaccoProduct_def product_mg20_def)
  have res: "list_products (Some store_mg20) (Some ''marlboro'') 100 =
     Inr [[(''name'', JStr ''Marlboro Gold 20''), (''sku'', JStr ''MG20''), (''brand'', JNull),
           (''category'', JStr ''Tabacco''), (''barcode'', JNull), (''price'', JFloat 5.5),
           (''tax_class'', JStr ''AAMS''), (''esl_id'', JNull), (''stock'', JInt 0),
           (''active'', JBool True), (''id'', JStr ''000000000000000000000000'')]]"
    unfolding call coll using m by (simp add: serialize_mg20 shown)
  from ne literal_marlboro res show ?thesis by blast
qed

subsection \<open>Creating a product, then listing by its sku\<close>


lemma validate_TobaccoProduct_fields:
  assumes "validate_TobaccoProduct b = Inr p"
  shows "pb_name b = Val (tp_name p) \<and> pb_sku b = Val (tp_sku p) \<and>
         pb_price b = Val (tp_price p) \<and> 0 \<le> tp_price p \<and>
         tp_brand p = optional None (pb_brand b) \<and>
         tp_category p = optional (Some ''Tabacco'') (pb_category b) \<and>
         tp_barcode p = optional None (pb_barcode b) \<and>
         tp_tax_class p = optional (Some ''AAMS'') (pb_tax_class b) \<and>
         tp_esl_id p = optional None (pb_esl_id b) \<and>
         tp_stock p = optional (Some 0) (pb_stock b) \<and>
         tp_active p = (case pb_active b of Val a \<Rightarrow> a | _ \<Rightarrow> True)"
proof -
  obtain name sku price where v: "pb_name b = Val name" "pb_sku b = Val sku" "pb_price b = Val price"
    using assms by (auto simp: validate_TobaccoProduct_def split: field.splits)
  from assms v show ?thesis
    by (auto simp: validate_TobaccoProduct_def split: if_splits)
qed

lemma serialize_product:
  "serialize (model_dump_TobaccoProduct p @ [(''_id'', JOid n)]) =
     model_dump_TobaccoProduct p @ [(''id'', JStr (str_oid n))]"
  by (simp add: serialize_def model_dump_TobaccoProduct_def pop_def)

lemma text_match_own_sku:
  "text_match (tp_sku p) (model_dump_TobaccoProduct p @ [(''_id'', JOid n)])"
  by (simp add: text_match_def contains_ci_def model_dump_TobaccoProduct_def)

lemma literal_mg20: "list_all is_literal ''MG20''"
  by (simp add: is_literal_def regex_meta_def)

text \<open>
  C7, as stated, fails: a sku is any string, and the listing reads it as a regular
  expression. In an empty store a valid product with sku \<^verbatim>\<open>MG^20\<close> is created, and the
  listing by that sku returns no record.
\<close>


theorem create_then_list_by_sku_counterexample:
  "fst (post_product (Some empty_store) body_caret) =
     Inr [(''id'', JStr ''000000000000000000000000'')] \<and>
   list_products (snd (post_product (Some empty_store) body_caret)) (Some ''MG^20'') 100 = Inr []"
proof -
  have v: "validate_TobaccoProduct body_caret =
      Inr \<lparr>tp_name = ''Marlboro Gold 20'', tp_sku = ''MG^20'', tp_brand = None,
           tp_category = Some ''Tabacco'', tp_barcode = None, tp_price = 5.5,
           tp_tax_class = Some ''AAMS'', tp_esl_id = None, tp_stock = Some 0, tp_active = True\<rparr>"
    by (simp add: validate_TobaccoProduct_def body_caret_def no_product_def)
  have p: "parse_regex ''MG^20'' =
      Some [PChar CHR ''M'', PChar CHR ''G'', PBol, PChar CHR ''2'', PChar CHR ''0'']"
    by code_simp
  have l: "lower CHR ''M'' = CHR ''m''" "lower CHR ''G'' = CHR ''g''" "lower CHR ''a'' = CHR ''a''"
    "lower CHR ''r'' = CHR ''r''" "lower CHR ''l'' = CHR ''l''" "lower CHR ''b'' = CHR ''b''"
    "lower CHR ''o'' = CHR ''o''" "lower CHR '' '' = CHR '' ''" "lower CHR ''d'' = CHR ''d''"
    "lower CHR ''2'' = CHR ''2''" "lower CHR ''0'' = CHR ''0''" "lower CHR ''^'' = CHR ''^''"
    "lower CHR ''T'' = CHR ''t''" "lower CHR ''c'' = CHR ''c''" "lower CHR ''A'' = CHR ''a''"
    "lower CHR ''S'' = CHR ''s''"
    by code_simp+
  show ?thesis
    by (simp add: post_product_def v create_product_def create_document_def empty_store_def
        str_oid_0 list_products_def get_documents_def product_query_def p
        model_dump_TobaccoProduct_def regex_search_i_def l del: parse_regex.simps)
qed

text \<open>
  C7, amended. For every valid product body whose sku is non-empty and made of literal
  characters only, on an available store in which no product matches that sku as a query,
  creating the product and then listing by its sku (default limit 100) returns exactly one
  record: the fields of the validated product, and the string \<open>id\<close> in place of the
  store's identifier. The validated product has the body's name, sku and price, and for
  each optional field the body's value, or the default when the body leaves it out
  (category Tabacco, tax class AAMS, stock 0, active true).
\<close>


theorem create_then_list_by_sku:
  assumes "validate_TobaccoProduct body = Inr p"
    and "tp_sku p \<noteq> []"
    and "list_all is_literal (tp_sku p)"
    and "list_all (\<lambda>d. \<not> text_match (tp_sku p) d) (colls s ''tobaccoproduct'')"
  shows "\<exists>s'. post_product (Some s) body =
            (Inr [(''id'', JStr (str_oid (next_oid s)))], Some s') \<and>
          list_products (Some s') (Some (tp_sku p)) 100 =
            Inr [model_dump_TobaccoProduct p @ [(''id'', JStr (str_oid (next_oid s)))]] \<and>
          pb_name body = Val (tp_name p) \<and> pb_sku body = Val (tp_sku p) \<and>
          pb_price body = Val (tp_price p) \<and>
          tp_brand p = optional None (pb_brand body) \<and>
          tp_category p = optional (Some ''Tabacco'') (pb_category body) \<and>
          tp_barcode p = optional None (pb_barcode body) \<and>
          tp_tax_class p = optional (Some ''AAMS'') (pb_tax_class body) \<and>
          tp_esl_id p = optional None (pb_esl_id body) \<and>
          tp_stock p = optional (Some 0) (pb_stock body) \<and>
          tp_active p = (case pb_active body of Val a \<Rightarrow> a | _ \<Rightarrow> True)"
proof -
  let ?new = "model_dump_TobaccoProduct p @ [(''_id'', JOid (next_oid s))]"
  define s' where "s' = s\<lparr>colls := (colls s)(''tobaccoproduct'' :=
      colls s ''tobaccoproduct'' @ [?new]), next_oid := Suc (next_oid s)\<rparr>"
  have post: "post_product (Some s) body =
      (Inr [(''id'', JStr (str_oid (next_oid s)))], Some s')"
    using assms(1) by (simp add: post_product_def create_product_def create_document_def s'_def)
  have old: "filter (text_match (tp_sku p)) (colls s ''tobaccoproduct'') = []"
    using assms(4) by (simp add: filter_empty_conv list_all_iff)
  have coll: "colls s' ''tobaccoproduct'' = colls s ''tobaccoproduct'' @ [?new]"
    by (simp add: s'_def)
  have "list_products (Some s') (Some (tp_sku p)) 100 =
      Inr (map serialize (take (nat 100)
             (filter (text_match (tp_sku p)) (colls s' ''tobaccoproduct''))))"
    by (rule list_products_of_literal [OF assms(2) assms(3)])
  then have listed: "list_products (Some s') (Some (tp_sku p)) 100 =
      Inr [model_dump_TobaccoProduct p @ [(''id'', JStr (str_oid (next_oid s)))]]"
    by (simp add: coll old text_match_own_sku serialize_product)
  from post listed validate_TobaccoProduct_fields [OF assms(1)] show ?thesis
    by (intro exI [of _ s']) simp
qed

theorem create_then_list_by_sku_witness:
  "validate_TobaccoProduct body_mg20 = Inr product_mg20 \<and>
   (\<exists>s'. post_product (Some empty_store) body_mg20 =
            (Inr [(''id'', JStr ''000000000000000000000000'')], Some s') \<and>
          list_products (Some s') (Some ''MG20'') 100 =
            Inr [[(''name'', JStr ''Marlboro Gold 20''), (''sku'', JStr ''MG20''), (''brand'', JNull),
                  (''category'', JStr ''Tabacco''), (''barcode'', JNull), (''price'', JFloat 5.5),
                  (''tax_class'', JStr ''AAMS''), (''esl_id'', JNull), (''stock'', JInt 0),
                  (''active'', JBool True), (''id'', JStr ''000000000000000000000000'')]])"
proof -
  have sku: "tp_sku product_mg20 = ''MG20''" by (simp add: product_mg20_def)
  have h2: "tp_sku product_mg20 \<noteq> []" by (simp add: product_mg20_def)
  have h3: "list_all is_literal (tp_sku product_mg20)" unfolding sku by (rule literal_mg20)
  have h4: "list_all (\<lambda>d. \<not> text_match (tp_sku product_mg20) d) (colls empty_store ''tobaccoproduct'')"
    by (simp add: empty_store_def)
  have shown: "model_dump_TobaccoProduct product_mg20 @ [(''id'', JStr ''000000000000000000000000'')] =
      [(''name'', JStr ''Marlboro Gold 20''), (''sku'', JStr ''MG20''), (''brand'', JNull),
       (''category'', JStr ''Tabacco''), (''barcode'', JNull), (''price'', JFloat 5.5),
       (''tax_class'', JStr ''AAMS''), (''esl_id'', JNull), (''stock'', JInt 0),
       (''active'', JBool True), (''id'', JStr ''000000000000000000000000'')]"
    by (simp add: model_dump_TobaccoProduct_def product_mg20_def)
  have n0: "next_oid empty_store = 0" by (simp add: empty_store_def)
  from create_then_list_by_sku [OF validate_mg20 h2 h3 h4]
  obtain s' where "post_product (Some empty_store) body_mg20 =
            (Inr [(''id'', JStr (str_oid (next_oid empty_store)))], Some s')"
    and "list_products (Some s') (Some (tp_sku product_mg20)) 100 =
            Inr [model_dump_TobaccoProduct product_mg20 @
                 [(''id'', JStr (str_oid (next_oid empty_store)))]]"
    by blast
  then have "post_product (Some empty_store) body_mg20 =
            (Inr [(''id'', JStr ''000000000000000000000000'')], Some s') \<and>
          list_products (Some s') (Some ''MG20'') 100 =
            Inr [[(''name'', JStr ''Marlboro Gold 20''), (''sku'', JStr ''MG20''), (''brand'', JNull),
                  (''category'', JStr ''Tabacco''), (''barcode'', JNull), (''price'', JFloat 5.5),
                  (''tax_class'', JStr ''AAMS''), (''esl_id'', JNull), (''stock'', JInt 0),
                  (''active'', JBool True), (''id'', JStr ''000000000000000000000000'')]]"
    unfolding sku n0 str_oid_0 shown by simp
  with validate_mg20 show ?thesis by blast
qed

subsection \<open>The connectivity probe never raises\<close>

text \<open>
  C9. For every state of the store handle and every exception its probing raises,
  \<^verbatim>\<open>GET /test\<close> returns a response and lets no exception out. When the listing of the
  collections raises, the response's database field is the degraded status followed by the
  first 50 characters of the message; when reading the handle's name raises, it is the error
  status followed by the first 50 characters of the message.
\<close>

theorem test_database_never_raises:
  "\<exists>r. test_database db url = Inr r \<and>
        (\<forall>h msg. db = Some h \<and> (\<forall>m. name_attr h \<noteq> Name_raises m) \<and>
                  list_collection_names h = Inl msg \<longrightarrow>
           database r = warning_sign @ ascii ''  Connected but Error: '' @ take 50 msg \<and>
           length (take 50 msg) \<le> 50) \<and>
        (\<forall>h msg. db = Some h \<and> name_attr h = Name_raises msg \<longrightarrow>
           database r = cross_mark @ ascii '' Error: '' @ take 50 msg \<and>
           length (take 50 msg) \<le> 50)"
proof (cases db)
  case None
  then show ?thesis by (simp add: test_database_def try_body_def)
next
  case (Some h)
  then show ?thesis
    by (cases "name_attr h"; cases "list_collection_names h")
       (simp_all add: test_database_def try_body_def probe_def)
qed

theorem test_database_never_raises_witness:
  "\<exists>r. test_database (Some failing_handle) None = Inr r \<and>
        database r = warning_sign @ ascii ''  Connected but Error: '' @
          ascii ''ServerSelectionTimeoutError: localhost:27017: [Err'' \<and>
        database_url r = Some (cross_mark @ ascii '' Not Set'') \<and>
        database_name r = Some (ascii ''esl'')"
proof -
  let ?msg = "ascii ''ServerSelectionTimeoutError: localhost:27017: [Errno 111] Connection refused''"
  obtain r where r: "test_database (Some failing_handle) None = Inr r"
    and w: "\<forall>h msg. Some failing_handle = Some h \<and> (\<forall>m. name_attr h \<noteq> Name_raises m) \<and>
                  list_collection_names h = Inl msg \<longrightarrow>
           database r = warning_sign @ ascii ''  Connected but Error: '' @ take 50 msg \<and>
           length (take 50 msg) \<le> 50"
    using test_database_never_raises [of "Some failing_handle" None] by blast
  have "(\<forall>m. name_attr failing_handle \<noteq> Name_raises m) \<and>
        list_collection_names failing_handle = Inl ?msg"
    by (simp add: failing_handle_def)
  with w have d: "database r = warning_sign @ ascii ''  Connected but Error: '' @ take 50 ?msg"
    by blast
  have t: "take 50 ?msg = ascii ''ServerSelectionTimeoutError: localhost:27017: [Err''"
    by (simp add: ascii_def)
  have rest: "database_url r = Some (cross_mark @ ascii '' Not Set'') \<and>
        database_name r = Some (ascii ''esl'')"
    using r by (auto simp: test_database_def try_body_def probe_def failing_handle_def)
  from r d t rest show ?thesis by (intro exI [of _ r]) simp
qed

end
